theory Spec2Isabelle
  imports Main
begin

section \<open>BackendForge API: documents, schemas, store and the generic CRUD handlers\<close>

text \<open>
  A shallow embedding of \<^verbatim>\<open>main.py\<close> and \<^verbatim>\<open>schemas.py\<close>. JSON-like Python values
  are a datatype, a Python dict is an association list in insertion order (its keys are
  distinct), exceptions are values of a sum type, and the store handle \<^verbatim>\<open>db\<close> is passed
  in and returned explicitly.
\<close>

subsection \<open>Values\<close>

text \<open>
  A \<^verbatim>\<open>bson.ObjectId\<close> is kept as the lower-case hexadecimal text of its bytes, which is
  what \<^verbatim>\<open>str(oid)\<close> returns. A Python float is kept as an opaque mantissa/exponent pair; no
  arithmetic is done on it anywhere in the program.
\<close>

datatype objectid = ObjectId string

datatype val =
    VNone
  | VBool bool
  | VInt int
  | VFloat int int
  | VStr string
  | VOid objectid
  | VList "val list"
  | VDict "(string \<times> val) list"

type_synonym doc = "(string \<times> val) list"

fun str_oid :: "objectid \<Rightarrow> string" where
  "str_oid (ObjectId h) = h"

definition is_hexdigit :: "char \<Rightarrow> bool" where
  "is_hexdigit c = (c \<in> set ''0123456789abcdefABCDEF'')"

definition lower_char :: "char \<Rightarrow> char" where
  "lower_char c =
     (case map_of (zip ''ABCDEFGHIJKLMNOPQRSTUVWXYZ'' ''abcdefghijklmnopqrstuvwxyz'') c of
        Some l \<Rightarrow> l
      | None \<Rightarrow> c)"

definition lower :: "string \<Rightarrow> string" where
  "lower s = map lower_char s"

text \<open>
  \<^verbatim>\<open>bytes.fromhex(s)\<close>: ASCII whitespace is skipped before each byte, and a byte is two
  hexadecimal digits next to each other; anything else is a \<^verbatim>\<open>ValueError\<close> (here
  \<open>None\<close>). The result is given as the lower-case hexadecimal text of the bytes read.
  A \<open>char\<close> stands for a code point below 256; the code points from 128 on are neither
  whitespace nor digits.
\<close>

definition is_space :: "char \<Rightarrow> bool" where
  "is_space c = (c \<in> set [CHR 0x09, CHR 0x0A, CHR 0x0B, CHR 0x0C, CHR 0x0D, CHR 0x20])"

fun fromhex :: "string \<Rightarrow> string option" where
  "fromhex [] = Some []"
| "fromhex [c] = (if is_space c then Some [] else None)"
| "fromhex (c # d # s) =
     (if is_space c then fromhex (d # s)
      else if is_hexdigit c \<and> is_hexdigit d
      then (case fromhex s of
              None \<Rightarrow> None
            | Some h \<Rightarrow> Some (lower_char c # lower_char d # h))
      else None)"

text \<open>
  \<^verbatim>\<open>ObjectId(s)\<close> for a string \<^verbatim>\<open>s\<close>: the constructor of \<^verbatim>\<open>bson.ObjectId\<close> tests
  \<^verbatim>\<open>len(s) == 24\<close> and then takes \<^verbatim>\<open>bytes.fromhex(s)\<close> as the identifier's bytes; every
  other string is \<^verbatim>\<open>InvalidId\<close> (here \<open>None\<close>). A string of 24 hexadecimal digits gives
  the usual identifier of 12 bytes; a string of 24 characters with whitespace in it gives
  an identifier of fewer bytes.
\<close>

definition ObjectId_of_str :: "string \<Rightarrow> objectid option" where
  "ObjectId_of_str s =
     (if length s = 24
      then (case fromhex s of None \<Rightarrow> None | Some h \<Rightarrow> Some (ObjectId h))
      else None)"

subsection \<open>Exceptions\<close>

datatype verr = Missing string | Invalid string

datatype detail = Detail string | ValidationDetail verr

datatype exn =
    HTTPException nat detail
  | ValueError string
  | ValidationError verr
  | RequestValidationError verr
  | DatabaseNotAvailable
  | OverflowError
  | InvalidDocument
  | WriteError
  | NotImplementedError
  | DriverError string

text \<open>
  \<^verbatim>\<open>StrObjectId.validate(v)\<close>: an \<^verbatim>\<open>ObjectId\<close> is returned as it is; anything else is
  passed to \<^verbatim>\<open>ObjectId(str(v))\<close>, and every failure becomes
  \<^verbatim>\<open>ValueError("Invalid ObjectId")\<close>. The handlers call it with the path string.
\<close>

datatype oid_arg = ArgOid objectid | ArgStr string

fun StrObjectId_validate :: "oid_arg \<Rightarrow> exn + objectid" where
  "StrObjectId_validate (ArgOid oid) = Inr oid"
| "StrObjectId_validate (ArgStr s) =
     (case ObjectId_of_str s of
        Some oid \<Rightarrow> Inr oid
      | None \<Rightarrow> Inl (ValueError ''Invalid ObjectId''))"

subsection \<open>The serializer\<close>

text \<open>
  \<^verbatim>\<open>serialize_doc\<close>: a falsy (empty) document is returned as it is; otherwise a new dict
  is built key by key. \<open>serialize_value\<close> is the \<^verbatim>\<open>if/elif\<close> chain on a field's value,
  \<open>serialize_item\<close> the expression applied to each element of a list value: a dict is
  serialized recursively, an \<^verbatim>\<open>ObjectId\<close> becomes its string, and every other element
  (a nested list included) is kept as it is.
\<close>

fun serialize_doc :: "doc \<Rightarrow> doc"
  and serialize_value :: "val \<Rightarrow> val"
  and serialize_item :: "val \<Rightarrow> val" where
  "serialize_doc doc =
     (if doc = [] then doc
      else map (\<lambda>(k, v). (k, serialize_value v)) doc)"
| "serialize_value (VOid oid) = VStr (str_oid oid)"
| "serialize_value (VList xs) = VList (map serialize_item xs)"
| "serialize_value (VDict d) = VDict (serialize_doc d)"
| "serialize_value v = v"
| "serialize_item (VDict d) = VDict (serialize_doc d)"
| "serialize_item (VOid oid) = VStr (str_oid oid)"
| "serialize_item v = v"

text \<open>Whether a value, or a document, holds an \<^verbatim>\<open>ObjectId\<close> at any depth.\<close>

fun has_oid :: "val \<Rightarrow> bool" where
  "has_oid (VOid oid) = True"
| "has_oid (VList xs) = list_ex has_oid xs"
| "has_oid (VDict d) = list_ex (\<lambda>kv. has_oid (snd kv)) d"
| "has_oid v = False"

definition doc_has_oid :: "doc \<Rightarrow> bool" where
  "doc_has_oid d = list_ex (\<lambda>kv. has_oid (snd kv)) d"

text \<open>Whether some list has a list as a direct element, at any depth.\<close>

fun is_list :: "val \<Rightarrow> bool" where
  "is_list (VList xs) = True"
| "is_list v = False"

fun has_list_in_list :: "val \<Rightarrow> bool" where
  "has_list_in_list (VList xs) = (list_ex is_list xs \<or> list_ex has_list_in_list xs)"
| "has_list_in_list (VDict d) = list_ex (\<lambda>kv. has_list_in_list (snd kv)) d"
| "has_list_in_list v = False"

subsection \<open>Schemas\<close>

text \<open>
  The Pydantic classes of \<^verbatim>\<open>schemas.py\<close>. A field is its name, its declared type and
  its default (\<open>None\<close> for a required field). \<^verbatim>\<open>ColumnDef\<close> is the one class that
  occurs nested in another, as the element type of \<^verbatim>\<open>TableDef.columns\<close>.
\<close>

datatype model =
    Project | TableDef | Relationship | ApiEndpoint | GraphQLSchema | AuthSettings
  | Role | Deployment | ApiKey | TeamMember | ActivityLog | AnalyticsPoint

datatype ftype =
    TStr | TBool | TInt | TFloat | TAny
  | TLiteral "string list"
  | TOptional ftype
  | TList ftype
  | TDictStrAny
  | TColumnDef

type_synonym field = "string \<times> ftype \<times> val option"

definition ColumnDef_fields :: "field list" where
  "ColumnDef_fields =
     [(''name'', TStr, None),
      (''data_type'',
         TLiteral [''String'', ''Integer'', ''Boolean'', ''Date'', ''JSON'', ''Enum''], None),
      (''primary_key'', TBool, Some (VBool False)),
      (''required'', TBool, Some (VBool False)),
      (''default_value'', TOptional TAny, Some VNone),
      (''relation'', TOptional TStr, Some VNone),
      (''description'', TOptional TStr, Some VNone)]"

definition on_change :: ftype where
  "on_change = TLiteral [''NO ACTION'', ''CASCADE'', ''SET NULL'', ''RESTRICT'']"

fun model_fields :: "model \<Rightarrow> field list" where
  "model_fields Project =
     [(''name'', TStr, None),
      (''db_type'', TLiteral [''PostgreSQL'', ''MySQL'', ''MongoDB''], Some (VStr ''MongoDB'')),
      (''region'', TStr, Some (VStr ''us-east-1'')),
      (''status'', TLiteral [''active'', ''provisioning'', ''error''], Some (VStr ''active''))]"
| "model_fields ActivityLog =
     [(''project_id'', TStr, None),
      (''action'', TStr, None),
      (''details'', TOptional TStr, Some VNone),
      (''actor'', TOptional TStr, Some VNone),
      (''level'', TLiteral [''info'', ''warning'', ''error''], Some (VStr ''info''))]"
| "model_fields TableDef =
     [(''project_id'', TStr, None),
      (''name'', TStr, None),
      (''description'', TOptional TStr, Some VNone),
      (''columns'', TList TColumnDef, Some (VList []))]"
| "model_fields Relationship =
     [(''project_id'', TStr, None),
      (''name'', TStr, None),
      (''rel_type'', TLiteral [''One-to-One'', ''One-to-Many'', ''Many-to-Many''], None),
      (''source_table_id'', TStr, None),
      (''target_table_id'', TStr, None),
      (''on_delete'', on_change, Some (VStr ''NO ACTION'')),
      (''on_update'', on_change, Some (VStr ''NO ACTION''))]"
| "model_fields ApiEndpoint =
     [(''project_id'', TStr, None),
      (''method'', TLiteral [''GET'', ''POST'', ''PUT'', ''PATCH'', ''DELETE''], None),
      (''url'', TStr, None),
      (''auth_required'', TBool, Some (VBool True)),
      (''description'', TOptional TStr, Some VNone)]"
| "model_fields GraphQLSchema =
     [(''project_id'', TStr, None),
      (''schema'', TDictStrAny, None)]"
| "model_fields AuthSettings =
     [(''project_id'', TStr, None),
      (''jwt_enabled'', TBool, Some (VBool True)),
      (''oauth_google'', TBool, Some (VBool False)),
      (''oauth_github'', TBool, Some (VBool False)),
      (''oauth_microsoft'', TBool, Some (VBool False))]"
| "model_fields Role =
     [(''project_id'', TStr, None),
      (''name'', TStr, None),
      (''description'', TOptional TStr, Some VNone),
      (''permissions'', TList TStr, Some (VList []))]"
| "model_fields Deployment =
     [(''project_id'', TStr, None),
      (''environment'', TLiteral [''Dev'', ''QA'', ''Production''], None),
      (''status'', TLiteral [''Success'', ''Pending'', ''Failed''], Some (VStr ''Pending'')),
      (''logs'', TOptional TStr, Some VNone)]"
| "model_fields ApiKey =
     [(''project_id'', TStr, None),
      (''name'', TStr, None),
      (''key'', TStr, None)]"
| "model_fields TeamMember =
     [(''project_id'', TStr, None),
      (''name'', TStr, None),
      (''role'', TStr, None),
      (''status'', TLiteral [''invited'', ''active'', ''removed''], Some (VStr ''invited''))]"
| "model_fields AnalyticsPoint =
     [(''project_id'', TStr, None),
      (''metric'', TLiteral [''api_usage'', ''response_time'', ''error_rate''], None),
      (''timestamp'', TInt, None),
      (''value'', TFloat, None)]"

text \<open>The class name, \<^verbatim>\<open>model.__name__\<close>.\<close>

fun model_name :: "model \<Rightarrow> string" where
  "model_name Project = ''Project''"
| "model_name TableDef = ''TableDef''"
| "model_name Relationship = ''Relationship''"
| "model_name ApiEndpoint = ''ApiEndpoint''"
| "model_name GraphQLSchema = ''GraphQLSchema''"
| "model_name AuthSettings = ''AuthSettings''"
| "model_name Role = ''Role''"
| "model_name Deployment = ''Deployment''"
| "model_name ApiKey = ''ApiKey''"
| "model_name TeamMember = ''TeamMember''"
| "model_name ActivityLog = ''ActivityLog''"
| "model_name AnalyticsPoint = ''AnalyticsPoint''"

subsection \<open>Validation\<close>

text \<open>
  Constructing a model, \<^verbatim>\<open>model(**payload)\<close>, validates the payload: every declared
  field is taken from the payload and checked against its type, or takes its default when
  absent; a required field that is absent and a value that its type rejects are errors;
  keys that the class does not declare are ignored. The result stands for the validated
  object and lists the declared fields in order, as \<^verbatim>\<open>model_dump()\<close> does.

  The library converts some inputs of \<^verbatim>\<open>bool\<close>, \<^verbatim>\<open>int\<close> and \<^verbatim>\<open>float\<close> fields
  (its lax mode). That conversion is the parameter \<open>lax\<close>, so that every result below
  holds whatever the library accepts there. String and literal fields accept exactly
  strings and the listed literals.
\<close>

type_synonym lax = "ftype \<Rightarrow> val \<Rightarrow> val option"

fun those_opt :: "'a option list \<Rightarrow> 'a list option" where
  "those_opt [] = Some []"
| "those_opt (None # xs) = None"
| "those_opt (Some x # xs) = (case those_opt xs of None \<Rightarrow> None | Some ys \<Rightarrow> Some (x # ys))"

fun coerce_with :: "(val \<Rightarrow> val option) \<Rightarrow> lax \<Rightarrow> ftype \<Rightarrow> val \<Rightarrow> val option" where
  "coerce_with nested lax TStr v = (case v of VStr s \<Rightarrow> Some (VStr s) | _ \<Rightarrow> None)"
| "coerce_with nested lax TBool v = lax TBool v"
| "coerce_with nested lax TInt v = lax TInt v"
| "coerce_with nested lax TFloat v = lax TFloat v"
| "coerce_with nested lax TAny v = Some v"
| "coerce_with nested lax (TLiteral ls) v =
     (case v of VStr s \<Rightarrow> (if s \<in> set ls then Some (VStr s) else None) | _ \<Rightarrow> None)"
| "coerce_with nested lax (TOptional t) v =
     (if v = VNone then Some VNone else coerce_with nested lax t v)"
| "coerce_with nested lax (TList t) v =
     (case v of
        VList xs \<Rightarrow>
          (case those_opt (map (coerce_with nested lax t) xs) of
             None \<Rightarrow> None
           | Some ys \<Rightarrow> Some (VList ys))
      | _ \<Rightarrow> None)"
| "coerce_with nested lax TDictStrAny v = (case v of VDict d \<Rightarrow> Some (VDict d) | _ \<Rightarrow> None)"
| "coerce_with nested lax TColumnDef v = nested v"

fun validate_fields :: "(ftype \<Rightarrow> val \<Rightarrow> val option) \<Rightarrow> field list \<Rightarrow> doc \<Rightarrow> verr + doc" where
  "validate_fields co [] payload = Inr []"
| "validate_fields co ((n, t, dflt) # fs) payload =
     (case (case map_of payload n of
              Some v \<Rightarrow> (case co t v of Some w \<Rightarrow> Inr w | None \<Rightarrow> Inl (Invalid n))
            | None \<Rightarrow> (case dflt of Some d \<Rightarrow> Inr d | None \<Rightarrow> Inl (Missing n))) of
        Inl e \<Rightarrow> Inl e
      | Inr w \<Rightarrow>
          (case validate_fields co fs payload of
             Inl e \<Rightarrow> Inl e
           | Inr rest \<Rightarrow> Inr ((n, w) # rest)))"

definition ColumnDef_validate :: "lax \<Rightarrow> val \<Rightarrow> val option" where
  "ColumnDef_validate lax v =
     (case v of
        VDict d \<Rightarrow>
          (case validate_fields (coerce_with (\<lambda>_. None) lax) ColumnDef_fields d of
             Inl e \<Rightarrow> None
           | Inr c \<Rightarrow> Some (VDict c))
      | _ \<Rightarrow> None)"

definition coerce :: "lax \<Rightarrow> ftype \<Rightarrow> val \<Rightarrow> val option" where
  "coerce lax = coerce_with (ColumnDef_validate lax) lax"

definition validate_model :: "lax \<Rightarrow> model \<Rightarrow> doc \<Rightarrow> verr + doc" where
  "validate_model lax m payload = validate_fields (coerce lax) (model_fields m) payload"

text \<open>A constructor call in the program: a validation failure is raised.\<close>

definition new_model :: "lax \<Rightarrow> model \<Rightarrow> doc \<Rightarrow> exn + doc" where
  "new_model lax m kwargs =
     (case validate_model lax m kwargs of
        Inl e \<Rightarrow> Inl (ValidationError e)
      | Inr obj \<Rightarrow> Inr obj)"

subsection \<open>The registry\<close>

definition ModelMap :: "(string \<times> model) list" where
  "ModelMap =
     [(''projects'', Project),
      (''tables'', TableDef),
      (''relationships'', Relationship),
      (''api-endpoints'', ApiEndpoint),
      (''graphql-schemas'', GraphQLSchema),
      (''auth-settings'', AuthSettings),
      (''roles'', Role),
      (''deployments'', Deployment),
      (''api-keys'', ApiKey),
      (''team-members'', TeamMember),
      (''activity'', ActivityLog),
      (''analytics'', AnalyticsPoint)]"

definition collection_name :: "model \<Rightarrow> string" where
  "collection_name m = lower (model_name m)"

subsection \<open>The document store\<close>

text \<open>
  The handle \<^verbatim>\<open>db\<close> is \<open>None\<close> when the store was never connected, and otherwise a
  database of the MongoDB driver. A store holds, for every collection name, its documents
  in insertion order, and a counter from which identifiers are assigned. The handlers
  use the driver's \<^verbatim>\<open>update_one\<close> and \<^verbatim>\<open>delete_one\<close> on a collection directly, and
  insert and find through \<^verbatim>\<open>create_document\<close> and \<^verbatim>\<open>get_documents\<close> of the module
  \<^verbatim>\<open>database\<close>, which \<^verbatim>\<open>main.py\<close> imports and which is not among the sources.
\<close>

record store =
  colls :: "string \<Rightarrow> doc list"
  next_oid :: nat

type_synonym db = "store option"

definition hex_digit :: "nat \<Rightarrow> char" where
  "hex_digit n = ''0123456789abcdef'' ! (n mod 16)"

fun hex_of :: "nat \<Rightarrow> nat \<Rightarrow> string" where
  "hex_of 0 n = []"
| "hex_of (Suc k) n = hex_of k (n div 16) @ [hex_digit n]"

text \<open>
  Modelled from the spec: identifiers are assigned by the store and are opaque; here the
  store numbers them.
\<close>

definition fresh_oid :: "store \<Rightarrow> objectid" where
  "fresh_oid s = ObjectId (hex_of 24 (next_oid s))"

text \<open>A filter \<^verbatim>\<open>{k: v, ...}\<close> matches a document that has each of these fields with this value.\<close>

definition matches :: "doc \<Rightarrow> doc \<Rightarrow> bool" where
  "matches filt d = list_all (\<lambda>kv. map_of d (fst kv) = Some (snd kv)) filt"

text \<open>
  Modelled from the spec: \<^verbatim>\<open>insert(collection, record) -> id\<close> stores the record and returns
  the new identifier (as \<^verbatim>\<open>main.py\<close> uses it, a string); it signals that the store is
  unavailable when the store is not connected.
\<close>

definition create_document :: "db \<Rightarrow> string \<Rightarrow> doc \<Rightarrow> (exn + string) \<times> db" where
  "create_document db c data =
     (case db of
        None \<Rightarrow> (Inl DatabaseNotAvailable, db)
      | Some s \<Rightarrow>
          (let oid = fresh_oid s in
           (Inr (str_oid oid),
            Some (s\<lparr>colls := (colls s)(c := colls s c @ [(''_id'', VOid oid) # data]),
                    next_oid := Suc (next_oid s)\<rparr>))))"

text \<open>
  Modelled from the spec: \<^verbatim>\<open>find(collection, filter)\<close> returns the records that match the
  filter, all of them for the empty filter, and the empty sequence when the store is
  unavailable.
\<close>

definition get_documents :: "db \<Rightarrow> string \<Rightarrow> doc \<Rightarrow> doc list" where
  "get_documents db c filt =
     (case db of
        None \<Rightarrow> []
      | Some s \<Rightarrow> filter (matches filt) (colls s c))"

text \<open>\<^verbatim>\<open>$set\<close> of one field: an existing field is overwritten in place, a new one is added.\<close>

fun set_field :: "string \<Rightarrow> val \<Rightarrow> doc \<Rightarrow> doc" where
  "set_field k v [] = [(k, v)]"
| "set_field k v ((k', v') # d) =
     (if k' = k then (k, v) # d else (k', v') # set_field k v d)"


fun update_first :: "(doc \<Rightarrow> bool) \<Rightarrow> (doc \<Rightarrow> doc) \<Rightarrow> doc list \<Rightarrow> doc list" where
  "update_first P f [] = []"
| "update_first P f (d # ds) = (if P d then f d # ds else d # update_first P f ds)"

fun delete_first :: "(doc \<Rightarrow> bool) \<Rightarrow> doc list \<Rightarrow> doc list" where
  "delete_first P [] = []"
| "delete_first P (d # ds) = (if P d then ds else d # delete_first P ds)"

text \<open>
  The request body is JSON: a value of it holds no \<^verbatim>\<open>ObjectId\<close>, and the keys of a dict
  are distinct.
\<close>

fun json_val :: "val \<Rightarrow> bool" where
  "json_val (VOid oid) = False"
| "json_val (VList xs) = list_all json_val xs"
| "json_val (VDict d) = (distinct (map fst d) \<and> list_all (\<lambda>kv. json_val (snd kv)) d)"
| "json_val v = True"

text \<open>
  Encoding a value as BSON, which the driver does before it sends the update. The
  elements are encoded in order, and the first one that cannot be encoded raises: an
  integer that does not fit in 8 bytes raises \<^verbatim>\<open>OverflowError\<close>, and a key with a NUL
  character raises \<^verbatim>\<open>InvalidDocument\<close>. A key is encoded before its value.
\<close>

fun first_some :: "'a option list \<Rightarrow> 'a option" where
  "first_some [] = None"
| "first_some (None # xs) = first_some xs"
| "first_some (Some e # xs) = Some e"

fun encode_error :: "val \<Rightarrow> exn option" where
  "encode_error (VInt i) = (if i < - (2 ^ 63) \<or> 2 ^ 63 - 1 < i then Some OverflowError else None)"
| "encode_error (VList xs) = first_some (map encode_error xs)"
| "encode_error (VDict d) =
     first_some
       (map (\<lambda>kv. if CHR 0x00 \<in> set (fst kv) then Some InvalidDocument
                  else encode_error (snd kv)) d)"
| "encode_error v = None"


text \<open>
  A key of \<^verbatim>\<open>$set\<close> is a path: its components, separated by dots, lead through embedded
  documents to the field that is set. A component that is modelled here is a name: not
  empty, not starting with \<^verbatim>\<open>$\<close>, without NUL. In the value that is set, the keys of the
  dicts are modelled when they are names without a dot.
\<close>

fun split_dots :: "string \<Rightarrow> string list" where
  "split_dots [] = [[]]"
| "split_dots (c # s) =
     (if c = CHR ''.'' then [] # split_dots s
      else (case split_dots s of
              [] \<Rightarrow> [[c]]
            | p # ps \<Rightarrow> (c # p) # ps))"

definition name :: "string \<Rightarrow> bool" where
  "name c = (c \<noteq> [] \<and> hd c \<noteq> CHR ''$'' \<and> CHR 0x00 \<notin> set c)"

definition field_name :: "string \<Rightarrow> bool" where
  "field_name k = (name k \<and> CHR ''.'' \<notin> set k)"

fun named_val :: "val \<Rightarrow> bool" where
  "named_val (VList xs) = list_all named_val xs"
| "named_val (VDict d) = list_all (\<lambda>kv. field_name (fst kv) \<and> named_val (snd kv)) d"
| "named_val v = True"

definition is_prefix :: "string list \<Rightarrow> string list \<Rightarrow> bool" where
  "is_prefix p q = (take (length p) q = p)"

text \<open>
  The payloads whose \<^verbatim>\<open>$set\<close> is modelled: not empty, every key a path of names, no path
  the beginning of the path of another key (the server refuses such a conflict), and
  every value with modelled keys.
\<close>

definition no_conflict :: "doc \<Rightarrow> bool" where
  "no_conflict payload =
     list_all (\<lambda>k. list_all (\<lambda>k'. k = k' \<or> \<not> is_prefix (split_dots k) (split_dots k'))
                 (map fst payload))
       (map fst payload)"

definition parsed :: "doc \<Rightarrow> bool" where
  "parsed payload =
     (payload \<noteq> []
      \<and> list_all (\<lambda>kv. list_all name (split_dots (fst kv)) \<and> named_val (snd kv)) payload
      \<and> no_conflict payload)"


text \<open>
  The part of the driver and the server that is left open: \<open>fits\<close> tells whether a
  document is within the size and nesting limits of the store. For a payload that is not
  JSON, does not fit or is not modelled, \<open>rejects\<close> is the exception, if any, that the
  call raises before a document is matched, and \<open>applies\<close> is what \<^verbatim>\<open>$set\<close> makes of a
  matched document, or the exception it raises. \<open>applies\<close> also stands for a path that
  leads through a field that is not an embedded document.
\<close>

record driver =
  fits :: "doc \<Rightarrow> bool"
  rejects :: "doc \<Rightarrow> exn option"
  applies :: "doc \<Rightarrow> doc \<Rightarrow> exn + doc"

text \<open>
  The exception that \<^verbatim>\<open>update_one(filt, {"$set": payload})\<close> raises before any document is
  matched: the first error of the encoding; none for a modelled payload that can be
  encoded.
\<close>

definition refused :: "driver \<Rightarrow> doc \<Rightarrow> exn option" where
  "refused drv payload =
     (if json_val (VDict payload) \<and> fits drv payload
      then (case encode_error (VDict payload) of
              Some e \<Rightarrow> Some e
            | None \<Rightarrow> (if parsed payload then None else rejects drv payload))
      else rejects drv payload)"

text \<open>
  Setting the field at the end of a path: through an embedded document that exists, or
  creating the embedded documents that do not. \<open>None\<close> when the path leads through a
  field that is not an embedded document.
\<close>

fun nest :: "string list \<Rightarrow> val \<Rightarrow> val" where
  "nest [] v = v"
| "nest (k # ks) v = VDict [(k, nest ks v)]"

fun set_path :: "string list \<Rightarrow> val \<Rightarrow> doc \<Rightarrow> doc option" where
  "set_path [] v d = None"
| "set_path [k] v d = Some (set_field k v d)"
| "set_path (k # k' # ks) v d =
     (case map_of d k of
        None \<Rightarrow> Some (set_field k (nest (k' # ks) v) d)
      | Some (VDict e) \<Rightarrow>
          (case set_path (k' # ks) v e of
             None \<Rightarrow> None
           | Some e' \<Rightarrow> Some (set_field k (VDict e') d))
      | Some _ \<Rightarrow> None)"

definition set_paths :: "doc \<Rightarrow> doc \<Rightarrow> doc option" where
  "set_paths payload d =
     fold (\<lambda>kv r. case r of None \<Rightarrow> None | Some e \<Rightarrow> set_path (split_dots (fst kv)) (snd kv) e)
       payload (Some d)"

definition touches_id :: "doc \<Rightarrow> bool" where
  "touches_id payload = list_ex (\<lambda>kv. hd (split_dots (fst kv)) = ''_id'') payload"

text \<open>
  \<^verbatim>\<open>$set\<close> on the matched document \<open>d\<close>, for a payload that was not refused. A payload
  with a path into \<^verbatim>\<open>_id\<close> is refused with \<^verbatim>\<open>WriteError\<close>: the field is immutable, and a
  JSON value is never the identifier that \<open>d\<close> has. Otherwise every path of the payload is
  set; an existing field stays in its place and a new field is added at the end. (In
  which order the server keeps several new fields is its own choice; here it is the
  payload's, and no statement below speaks of the order of the fields of a document.)
\<close>

definition set_on :: "driver \<Rightarrow> doc \<Rightarrow> doc \<Rightarrow> exn + doc" where
  "set_on drv payload d =
     (if json_val (VDict payload) \<and> fits drv payload \<and> parsed payload
      then (if touches_id payload then Inl WriteError
            else (case set_paths payload d of
                    None \<Rightarrow> applies drv payload d
                  | Some d' \<Rightarrow> (if fits drv d' then Inr d' else applies drv payload d)))
      else applies drv payload d)"

text \<open>
  The driver call \<^verbatim>\<open>db[c].update_one(filt, {"$set": payload})\<close>: the update is encoded and
  parsed, which can raise; then the first document of the collection that matches the
  filter, if there is one, is replaced by the result of \<^verbatim>\<open>$set\<close> on it, unless that
  raises, in which case nothing is written. The result is the exception, or
  \<^verbatim>\<open>matched_count\<close> and the store afterwards.
\<close>

definition update_one :: "driver \<Rightarrow> store \<Rightarrow> string \<Rightarrow> doc \<Rightarrow> doc \<Rightarrow> exn + nat \<times> store" where
  "update_one drv s c filt payload =
     (case refused drv payload of
        Some e \<Rightarrow> Inl e
      | None \<Rightarrow>
          (case find (matches filt) (colls s c) of
             None \<Rightarrow> Inr (0, s)
           | Some d \<Rightarrow>
               (case set_on drv payload d of
                  Inl e \<Rightarrow> Inl e
                | Inr d' \<Rightarrow>
                    Inr (1, s\<lparr>colls := (colls s)(c :=
                                 update_first (matches filt) (\<lambda>_. d') (colls s c))\<rparr>))))"

text \<open>
  The driver call \<^verbatim>\<open>db[c].delete_one(filt)\<close>: the first document of the collection that
  matches the filter is removed, and \<^verbatim>\<open>deleted_count\<close> tells whether one was. The pair is
  \<^verbatim>\<open>deleted_count\<close> and the store afterwards.
\<close>

definition delete_one :: "store \<Rightarrow> string \<Rightarrow> doc \<Rightarrow> nat \<times> store" where
  "delete_one s c filt =
     (if list_ex (matches filt) (colls s c)
      then (1, s\<lparr>colls := (colls s)(c := delete_first (matches filt) (colls s c))\<rparr>)
      else (0, s))"

subsection \<open>The project endpoints\<close>

definition status_ok :: doc where
  "status_ok = [(''status'', VStr ''ok'')]"

text \<open>
  The truth value of the handle, \<^verbatim>\<open>if db\<close>: \<^verbatim>\<open>None\<close> is false, and a database of the
  driver refuses the test with \<^verbatim>\<open>NotImplementedError\<close> (it asks to be compared with
  \<^verbatim>\<open>None\<close>).
\<close>

definition truth :: "db \<Rightarrow> exn + bool" where
  "truth db = (case db of None \<Rightarrow> Inr False | Some s \<Rightarrow> Inl NotImplementedError)"

definition list_projects :: "db \<Rightarrow> exn + doc list" where
  "list_projects db =
     (case truth db of
        Inl e \<Rightarrow> Inl e
      | Inr b \<Rightarrow>
          (let docs = (if b then get_documents db (collection_name Project) [] else [])
           in Inr (map serialize_doc docs)))"

text \<open>The loop \<^verbatim>\<open>for env in ["Dev", "QA", "Production"]\<close> of \<^verbatim>\<open>create_project\<close>.\<close>

fun seed_deployments :: "lax \<Rightarrow> db \<Rightarrow> string \<Rightarrow> string list \<Rightarrow> (exn + unit) \<times> db" where
  "seed_deployments lax db pid [] = (Inr (), db)"
| "seed_deployments lax db pid (env # envs) =
     (case new_model lax Deployment [(''project_id'', VStr pid), (''environment'', VStr env)] of
        Inl e \<Rightarrow> (Inl e, db)
      | Inr dep \<Rightarrow>
          (case create_document db (collection_name Deployment) dep of
             (Inl e, db') \<Rightarrow> (Inl e, db')
           | (Inr _, db') \<Rightarrow> seed_deployments lax db' pid envs))"

text \<open>
  \<^verbatim>\<open>create_project(payload: Project)\<close>: the framework has validated the request body into
  a \<^verbatim>\<open>Project\<close> before the handler runs, so \<open>payload\<close> is the validated object.
\<close>

definition create_project :: "lax \<Rightarrow> db \<Rightarrow> doc \<Rightarrow> (exn + string) \<times> db" where
  "create_project lax db payload =
     (case create_document db (collection_name Project) payload of
        (Inl e, db1) \<Rightarrow> (Inl e, db1)
      | (Inr pid, db1) \<Rightarrow>
          (case new_model lax AuthSettings [(''project_id'', VStr pid)] of
             Inl e \<Rightarrow> (Inl e, db1)
           | Inr auth \<Rightarrow>
               (case create_document db1 (collection_name AuthSettings) auth of
                  (Inl e, db2) \<Rightarrow> (Inl e, db2)
                | (Inr _, db2) \<Rightarrow>
                    (case seed_deployments lax db2 pid [''Dev'', ''QA'', ''Production''] of
                       (Inl e, db3) \<Rightarrow> (Inl e, db3)
                     | (Inr _, db3) \<Rightarrow> (Inr pid, db3)))))"

definition delete_project :: "db \<Rightarrow> string \<Rightarrow> (exn + doc) \<times> db" where
  "delete_project db project_id =
     (case db of
        None \<Rightarrow> (Inl (HTTPException 500 (Detail ''Database not available'')), db)
      | Some s \<Rightarrow>
          (case StrObjectId_validate (ArgStr project_id) of
             Inl e \<Rightarrow> (Inl e, db)
           | Inr oid \<Rightarrow>
               (case delete_one s (collection_name Project) [(''_id'', VOid oid)] of
                  (deleted_count, s') \<Rightarrow>
                    (if deleted_count = 0
                     then (Inl (HTTPException 404 (Detail ''Project not found'')), Some s')
                     else (Inr status_ok, Some s')))))"

subsection \<open>The generic handlers\<close>

definition list_by_project :: "db \<Rightarrow> string \<Rightarrow> string option \<Rightarrow> exn + doc list" where
  "list_by_project db resource project_id =
     (case map_of ModelMap resource of
        None \<Rightarrow> Inl (HTTPException 404 (Detail ''Unknown resource''))
      | Some m \<Rightarrow>
          (case db of
             None \<Rightarrow> Inr []
           | Some s \<Rightarrow>
               (let filt = (case project_id of
                              None \<Rightarrow> []
                            | Some p \<Rightarrow> (if p \<noteq> [] then [(''project_id'', VStr p)] else []));
                    docs = get_documents db (collection_name m) filt
                in Inr (map serialize_doc docs))))"

definition create_item :: "lax \<Rightarrow> db \<Rightarrow> string \<Rightarrow> doc \<Rightarrow> (exn + string) \<times> db" where
  "create_item lax db resource payload =
     (case map_of ModelMap resource of
        None \<Rightarrow> (Inl (HTTPException 404 (Detail ''Unknown resource'')), db)
      | Some m \<Rightarrow>
          (case validate_model lax m payload of
             Inl e \<Rightarrow> (Inl (HTTPException 422 (ValidationDetail e)), db)
           | Inr obj \<Rightarrow> create_document db (collection_name m) obj))"

text \<open>
  The payload restricted to the fields that the class declares,
  \<^verbatim>\<open>{k: v for k, v in payload.items() if k in model.model_fields}\<close>. \<^verbatim>\<open>update_item\<close> constructs
  the model from it inside \<^verbatim>\<open>try ... except Exception: pass\<close>: the outcome \<open>attempt\<close>, object
  or exception, is computed and then not used.
\<close>

definition declared :: "model \<Rightarrow> doc \<Rightarrow> doc" where
  "declared m payload = filter (\<lambda>kv. fst kv \<in> set (map fst (model_fields m))) payload"

definition update_item ::
  "lax \<Rightarrow> driver \<Rightarrow> db \<Rightarrow> string \<Rightarrow> string \<Rightarrow> doc \<Rightarrow> (exn + doc) \<times> db" where
  "update_item lax drv db resource item_id payload =
     (case map_of ModelMap resource of
        None \<Rightarrow> (Inl (HTTPException 404 (Detail ''Unknown resource'')), db)
      | Some m \<Rightarrow>
          (case db of
             None \<Rightarrow> (Inl (HTTPException 500 (Detail ''Database not available'')), db)
           | Some s \<Rightarrow>
               (let attempt = new_model lax m (declared m payload) in
                  (case StrObjectId_validate (ArgStr item_id) of
                     Inl e \<Rightarrow> (Inl e, db)
                   | Inr oid \<Rightarrow>
                       (case update_one drv s (collection_name m) [(''_id'', VOid oid)] payload of
                          Inl e \<Rightarrow> (Inl e, db)
                        | Inr (matched_count, s') \<Rightarrow>
                            (if matched_count = 0
                             then (Inl (HTTPException 404 (Detail ''Item not found'')), Some s')
                             else (Inr status_ok, Some s')))))))"

definition delete_item :: "db \<Rightarrow> string \<Rightarrow> string \<Rightarrow> (exn + doc) \<times> db" where
  "delete_item db resource item_id =
     (case map_of ModelMap resource of
        None \<Rightarrow> (Inl (HTTPException 404 (Detail ''Unknown resource'')), db)
      | Some m \<Rightarrow>
          (case db of
             None \<Rightarrow> (Inl (HTTPException 500 (Detail ''Database not available'')), db)
           | Some s \<Rightarrow>
               (case StrObjectId_validate (ArgStr item_id) of
                  Inl e \<Rightarrow> (Inl e, db)
                | Inr oid \<Rightarrow>
                    (case delete_one s (collection_name m) [(''_id'', VOid oid)] of
                       (deleted_count, s') \<Rightarrow>
                         (if deleted_count = 0
                          then (Inl (HTTPException 404 (Detail ''Item not found'')), Some s')
                          else (Inr status_ok, Some s'))))))"

text \<open>
  The routes are tried in the order of their registration: \<^verbatim>\<open>POST /projects\<close> comes
  before \<^verbatim>\<open>POST /{resource}\<close>, so a request that creates a record of kind
  \<^verbatim>\<open>projects\<close> is handled by \<^verbatim>\<open>create_project\<close>, after the framework has validated its
  body as a \<^verbatim>\<open>Project\<close>; every other kind goes to \<^verbatim>\<open>create_item\<close>.
\<close>

definition post_resource :: "lax \<Rightarrow> db \<Rightarrow> string \<Rightarrow> doc \<Rightarrow> (exn + string) \<times> db" where
  "post_resource lax db resource body =
     (if resource = ''projects''
      then (case validate_model lax Project body of
              Inl e \<Rightarrow> (Inl (RequestValidationError e), db)
            | Inr payload \<Rightarrow> create_project lax db payload)
      else create_item lax db resource body)"

subsection \<open>Auxiliary notions and concrete inputs\<close>

text \<open>
  One conversion that the library's lax mode includes: a \<^verbatim>\<open>bool\<close>, \<^verbatim>\<open>int\<close> or
  \<^verbatim>\<open>float\<close> field accepts a value that already has its type. The concrete examples
  below use it.
\<close>

definition same_type :: "ftype \<Rightarrow> val \<Rightarrow> val option" where
  "same_type t v =
     (case t of
        TBool \<Rightarrow> (case v of VBool b \<Rightarrow> Some v | _ \<Rightarrow> None)
      | TInt \<Rightarrow> (case v of VInt i \<Rightarrow> Some v | _ \<Rightarrow> None)
      | TFloat \<Rightarrow> (case v of VFloat m e \<Rightarrow> Some v | _ \<Rightarrow> None)
      | _ \<Rightarrow> None)"

text \<open>A connected store that holds nothing yet.\<close>

definition empty_store :: store where
  "empty_store = \<lparr>colls = (\<lambda>c. []), next_oid = 0\<rparr>"

text \<open>
  Whether the path string \<open>item_id\<close> identifies the record \<open>d\<close>: it is an identifier, and
  the record's \<^verbatim>\<open>_id\<close>.
\<close>

definition identifies :: "string \<Rightarrow> doc \<Rightarrow> bool" where
  "identifies item_id d =
     (case ObjectId_of_str item_id of
        None \<Rightarrow> False
      | Some oid \<Rightarrow> map_of d ''_id'' = Some (VOid oid))"

text \<open>
  A connected store with two \<^verbatim>\<open>TableDef\<close> records, one of project \<^verbatim>\<open>p1\<close> and one whose
  \<^verbatim>\<open>project_id\<close> is the empty string.
\<close>

definition users_table :: doc where
  "users_table =
     [(''_id'', VOid (ObjectId ''000000000000000000000000'')),
      (''project_id'', VStr ''p1''),
      (''name'', VStr ''users''),
      (''description'', VNone),
      (''columns'', VList [])]"

definition stray_table :: doc where
  "stray_table =
     [(''_id'', VOid (ObjectId ''000000000000000000000001'')),
      (''project_id'', VStr []),
      (''name'', VStr ''stray''),
      (''description'', VNone),
      (''columns'', VList [])]"

definition tables_store :: store where
  "tables_store =
     \<lparr>colls = (\<lambda>c. if c = ''tabledef'' then [users_table, stray_table] else []),
      next_oid = 2\<rparr>"

text \<open>A validated \<^verbatim>\<open>Project\<close>, as the framework hands it to \<^verbatim>\<open>create_project\<close>.\<close>

definition shop :: doc where
  "shop =
     [(''name'', VStr ''Shop''),
      (''db_type'', VStr ''PostgreSQL''),
      (''region'', VStr ''us-east-1''),
      (''status'', VStr ''active'')]"

text \<open>The documents of collection \<open>c\<close> after an operation that returned \<open>r\<close>.\<close>

definition coll_after :: "'a \<times> db \<Rightarrow> string \<Rightarrow> doc list option" where
  "coll_after r c = (case snd r of None \<Rightarrow> None | Some s \<Rightarrow> Some (colls s c))"

text \<open>The store after \<^verbatim>\<open>POST /projects\<close> with the project \<open>shop\<close> on the empty store.\<close>

definition seeded_store :: store where
  "seeded_store =
     (case snd (create_project same_type (Some empty_store) shop) of
        None \<Rightarrow> empty_store
      | Some s \<Rightarrow> s)"


text \<open>
  A driver for the concrete examples: no limits, and an error for everything that is left
  open. The examples stay within what is modelled.
\<close>

definition plain_only :: driver where
  "plain_only =
     \<lparr>fits = (\<lambda>d. True),
      rejects = (\<lambda>payload. Some (DriverError ''not modelled'')),
      applies = (\<lambda>payload d. Inl (DriverError ''not modelled''))\<rparr>"




text \<open>An update payload with an integer of 9 bytes, \<open>2 ^ 64\<close>.\<close>

definition resize :: doc where
  "resize = [(''size'', VInt 18446744073709551616)]"


section \<open>Properties\<close>

subsection \<open>Evaluation lemmas\<close>

lemma collection_names [simp]:
  "collection_name Project = ''project''"
  "collection_name AuthSettings = ''authsettings''"
  "collection_name Deployment = ''deployment''"
  "collection_name TableDef = ''tabledef''"
  by (simp_all add: collection_name_def lower_def lower_char_def)

lemma new_AuthSettings:
  "new_model lax AuthSettings [(''project_id'', VStr pid)] =
     Inr [(''project_id'', VStr pid), (''jwt_enabled'', VBool True),
          (''oauth_google'', VBool False), (''oauth_github'', VBool False),
          (''oauth_microsoft'', VBool False)]"
  by (simp add: new_model_def validate_model_def coerce_def)

lemma new_Deployment:
  "env \<in> set [''Dev'', ''QA'', ''Production''] \<Longrightarrow>
   new_model lax Deployment [(''project_id'', VStr pid), (''environment'', VStr env)] =
     Inr [(''project_id'', VStr pid), (''environment'', VStr env),
          (''status'', VStr ''Pending''), (''logs'', VNone)]"
  by (auto simp add: new_model_def validate_model_def coerce_def)

lemma seeded_colls:
  "colls seeded_store ''project'' =
     [(''_id'', VOid (ObjectId ''000000000000000000000000'')) # shop]"
  "colls seeded_store ''authsettings'' =
     [[(''_id'', VOid (ObjectId ''000000000000000000000001'')),
       (''project_id'', VStr ''000000000000000000000000''), (''jwt_enabled'', VBool True),
       (''oauth_google'', VBool False), (''oauth_github'', VBool False),
       (''oauth_microsoft'', VBool False)]]"
  "colls seeded_store ''deployment'' =
     [[(''_id'', VOid (ObjectId ''000000000000000000000002'')),
       (''project_id'', VStr ''000000000000000000000000''), (''environment'', VStr ''Dev''),
       (''status'', VStr ''Pending''), (''logs'', VNone)],
      [(''_id'', VOid (ObjectId ''000000000000000000000003'')),
       (''project_id'', VStr ''000000000000000000000000''), (''environment'', VStr ''QA''),
       (''status'', VStr ''Pending''), (''logs'', VNone)],
      [(''_id'', VOid (ObjectId ''000000000000000000000004'')),
       (''project_id'', VStr ''000000000000000000000000''), (''environment'', VStr ''Production''),
       (''status'', VStr ''Pending''), (''logs'', VNone)]]"
  by code_simp+

lemma create_shop_id:
  "fst (create_project same_type (Some empty_store) shop) = Inr ''000000000000000000000000''"
  by code_simp

subsection \<open>The serializer\<close>

lemma serialize_twice:
  "serialize_doc (serialize_doc d) = serialize_doc d"
  "serialize_value (serialize_value v) = serialize_value v"
  "serialize_item (serialize_item w) = serialize_item w"
  by (induction d and v and w rule: serialize_doc_serialize_value_serialize_item.induct) auto

text \<open>
  What the serializer does reach: in a document in which no list is a direct element of
  another list, no \<^verbatim>\<open>ObjectId\<close> is left.
\<close>

lemma serialize_removes_oids:
  "\<not> list_ex (\<lambda>kv. has_list_in_list (snd kv)) d \<Longrightarrow> \<not> doc_has_oid (serialize_doc d)"
  "\<not> has_list_in_list v \<Longrightarrow> \<not> has_oid (serialize_value v)"
  "\<not> has_list_in_list w \<Longrightarrow> \<not> is_list w \<Longrightarrow> \<not> has_oid (serialize_item w)"
  by (induction d and v and w rule: serialize_doc_serialize_value_serialize_item.induct)
     (auto simp: doc_has_oid_def list_ex_iff)

text \<open>
  Claim C6. The serializer replaces every \<^verbatim>\<open>ObjectId\<close>, at any nesting depth, by its
  string. The code does not: an element of a list is converted when it is a dict or an
  \<^verbatim>\<open>ObjectId\<close>, and a list that is itself an element of a list is passed through with
  the identifiers inside it. The document \<^verbatim>\<open>{"refs": [[ObjectId(...)]]}\<close> comes back
  unchanged, identifier included.
\<close>

theorem serialize_doc_nested_list_keeps_oid:
  "serialize_doc [(''refs'', VList [VList [VOid (ObjectId ''0123456789abcdef01234567'')]])]
     = [(''refs'', VList [VList [VOid (ObjectId ''0123456789abcdef01234567'')]])]
   \<and> doc_has_oid
       (serialize_doc [(''refs'', VList [VList [VOid (ObjectId ''0123456789abcdef01234567'')]])])"
  by (simp add: doc_has_oid_def)

text \<open>
  Claim C7. The serializer is idempotent: serializing its own output changes nothing.
\<close>

theorem serialize_doc_idempotent:
  "serialize_doc (serialize_doc d) = serialize_doc d"
  by (rule serialize_twice(1))

text \<open>Serializing the record \<open>users_table\<close>, once and twice.\<close>

theorem serialize_doc_idempotent_witness:
  "serialize_doc users_table =
     [(''_id'', VStr ''000000000000000000000000''),
      (''project_id'', VStr ''p1''),
      (''name'', VStr ''users''),
      (''description'', VNone),
      (''columns'', VList [])]
   \<and> serialize_doc (serialize_doc users_table) = serialize_doc users_table"
  using serialize_doc_idempotent [of users_table]
  by (simp add: users_table_def)

subsection \<open>Creating a project\<close>

text \<open>
  Claim C1. On a connected store, creating a project returns the new project's id and
  appends to the store the project itself, exactly one \<^verbatim>\<open>AuthSettings\<close> record and exactly
  three \<^verbatim>\<open>Deployment\<close> records, for the environments Dev, QA and Production in this order,
  each with status Pending and each with the new project's id as its \<^verbatim>\<open>project_id\<close>.
\<close>

theorem create_project_seeds_defaults:
  "\<exists>pid p a d1 d2 d3 s'.
     create_project lax (Some s) payload = (Inr pid, Some s') \<and>
     str_oid p = pid \<and>
     colls s' (collection_name Project) =
       colls s (collection_name Project) @ [(''_id'', VOid p) # payload] \<and>
     colls s' (collection_name AuthSettings) =
       colls s (collection_name AuthSettings) @
         [[(''_id'', VOid a), (''project_id'', VStr pid), (''jwt_enabled'', VBool True),
           (''oauth_google'', VBool False), (''oauth_github'', VBool False),
           (''oauth_microsoft'', VBool False)]] \<and>
     colls s' (collection_name Deployment) =
       colls s (collection_name Deployment) @
         [[(''_id'', VOid d1), (''project_id'', VStr pid), (''environment'', VStr ''Dev''),
           (''status'', VStr ''Pending''), (''logs'', VNone)],
          [(''_id'', VOid d2), (''project_id'', VStr pid), (''environment'', VStr ''QA''),
           (''status'', VStr ''Pending''), (''logs'', VNone)],
          [(''_id'', VOid d3), (''project_id'', VStr pid), (''environment'', VStr ''Production''),
           (''status'', VStr ''Pending''), (''logs'', VNone)]]"
  by (simp add: create_project_def create_document_def new_AuthSettings new_Deployment Let_def)

text \<open>
  The scenario \<^verbatim>\<open>POST /projects {"name": "Shop", "db_type": "PostgreSQL"}\<close> on the empty
  store: the answer is the first identifier, and the store then holds one
  \<^verbatim>\<open>AuthSettings\<close> record and the three \<^verbatim>\<open>Deployment\<close> records of this project.
\<close>

theorem create_project_seeds_defaults_witness:
  "fst (create_project same_type (Some empty_store) shop) = Inr ''000000000000000000000000''
   \<and> (\<exists>a. coll_after (create_project same_type (Some empty_store) shop) ''authsettings'' =
         Some [[(''_id'', VOid a), (''project_id'', VStr ''000000000000000000000000''),
                (''jwt_enabled'', VBool True), (''oauth_google'', VBool False),
                (''oauth_github'', VBool False), (''oauth_microsoft'', VBool False)]])
   \<and> (\<exists>d1 d2 d3. coll_after (create_project same_type (Some empty_store) shop) ''deployment'' =
         Some [[(''_id'', VOid d1), (''project_id'', VStr ''000000000000000000000000''),
                (''environment'', VStr ''Dev''), (''status'', VStr ''Pending''), (''logs'', VNone)],
               [(''_id'', VOid d2), (''project_id'', VStr ''000000000000000000000000''),
                (''environment'', VStr ''QA''), (''status'', VStr ''Pending''), (''logs'', VNone)],
               [(''_id'', VOid d3), (''project_id'', VStr ''000000000000000000000000''),
                (''environment'', VStr ''Production''), (''status'', VStr ''Pending''),
                (''logs'', VNone)]])"
proof -
  from create_project_seeds_defaults [of same_type empty_store shop]
  obtain pid p a d1 d2 d3 s' where r:
    "create_project same_type (Some empty_store) shop = (Inr pid, Some s')"
    and "str_oid p = pid"
    and a: "colls s' (collection_name AuthSettings) =
       colls empty_store (collection_name AuthSettings) @
         [[(''_id'', VOid a), (''project_id'', VStr pid), (''jwt_enabled'', VBool True),
           (''oauth_google'', VBool False), (''oauth_github'', VBool False),
           (''oauth_microsoft'', VBool False)]]"
    and d: "colls s' (collection_name Deployment) =
       colls empty_store (collection_name Deployment) @
         [[(''_id'', VOid d1), (''project_id'', VStr pid), (''environment'', VStr ''Dev''),
           (''status'', VStr ''Pending''), (''logs'', VNone)],
          [(''_id'', VOid d2), (''project_id'', VStr pid), (''environment'', VStr ''QA''),
           (''status'', VStr ''Pending''), (''logs'', VNone)],
          [(''_id'', VOid d3), (''project_id'', VStr pid), (''environment'', VStr ''Production''),
           (''status'', VStr ''Pending''), (''logs'', VNone)]]"
    by blast
  from r create_shop_id have pid: "pid = ''000000000000000000000000''"
    by simp
  from r a d show ?thesis
    unfolding pid by (simp add: coll_after_def empty_store_def create_shop_id)
qed

text \<open>
  A request that creates a record of kind \<^verbatim>\<open>projects\<close> reaches \<^verbatim>\<open>create_project\<close>, not
  the generic \<^verbatim>\<open>create_item\<close>.
\<close>

lemma post_projects:
  "validate_model lax Project body = Inr payload \<Longrightarrow>
   post_resource lax db ''projects'' body = create_project lax db payload"
  by (simp add: post_resource_def)

subsection \<open>Unknown resource kinds\<close>

lemma ModelMap_keys:
  "length ModelMap = 12" "distinct (map fst ModelMap)"
  by (simp_all add: ModelMap_def)

lemma unknown_lookup: "resource \<notin> set (map fst ModelMap) \<Longrightarrow> map_of ModelMap resource = None"
  by (simp add: map_of_eq_None_iff)

text \<open>
  Claim C4. For a resource name that is not in the registry, each of the four generic
  operations signals 404 ``Unknown resource''. The answer is the same for every store,
  connected or not, and the store is returned as it was: the check comes before any use
  of it.
\<close>

theorem unknown_resource_not_found:
  assumes "resource \<notin> set (map fst ModelMap)"
  shows "list_by_project db resource project_id =
           Inl (HTTPException 404 (Detail ''Unknown resource''))
       \<and> create_item lax db resource payload =
           (Inl (HTTPException 404 (Detail ''Unknown resource'')), db)
       \<and> update_item lax drv db resource item_id payload =
           (Inl (HTTPException 404 (Detail ''Unknown resource'')), db)
       \<and> delete_item db resource item_id =
           (Inl (HTTPException 404 (Detail ''Unknown resource'')), db)"
  using unknown_lookup [OF assms]
  by (simp add: list_by_project_def create_item_def update_item_def delete_item_def)

theorem unknown_resource_not_found_witness:
  "''unknown-kind'' \<notin> set (map fst ModelMap)
   \<and> list_by_project (Some tables_store) ''unknown-kind'' None =
       Inl (HTTPException 404 (Detail ''Unknown resource''))
   \<and> create_item same_type (Some tables_store) ''unknown-kind'' [(''name'', VStr ''x'')] =
       (Inl (HTTPException 404 (Detail ''Unknown resource'')), Some tables_store)
   \<and> update_item same_type plain_only None ''unknown-kind'' ''000000000000000000000000'' [] =
       (Inl (HTTPException 404 (Detail ''Unknown resource'')), None)
   \<and> delete_item (Some tables_store) ''unknown-kind'' ''000000000000000000000000'' =
       (Inl (HTTPException 404 (Detail ''Unknown resource'')), Some tables_store)"
proof -
  have h: "''unknown-kind'' \<notin> set (map fst ModelMap)"
    by (simp add: ModelMap_def)
  show ?thesis
    using h
      unknown_resource_not_found [OF h, where db = "Some tables_store" and project_id = None
        and lax = same_type and drv = plain_only and payload = "[(''name'', VStr ''x'')]"
        and item_id = "''000000000000000000000000''"]
      unknown_resource_not_found [OF h, where db = None and project_id = None
        and lax = same_type and drv = plain_only and payload = "[]"
        and item_id = "''000000000000000000000000''"]
    by (simp add: create_item_def unknown_lookup)
qed

subsection \<open>A store that was never connected\<close>

lemma ModelMap_tables: "map_of ModelMap ''tables'' = Some TableDef"
  by (simp add: ModelMap_def)

lemma list_projects_None: "list_projects None = Inr []"
  by (simp add: list_projects_def truth_def)

lemma create_document_None: "create_document None c data = (Inl DatabaseNotAvailable, None)"
  by (simp add: create_document_def)

text \<open>
  Claim C3 says that with a store that was never connected every write, Create included,
  signals the store-unavailable error. Create validates the payload first: on the
  unconnected store, \<^verbatim>\<open>POST /tables\<close> with the empty payload is rejected with 422 for the
  missing \<^verbatim>\<open>project_id\<close>, and the store is never asked.
\<close>

theorem create_item_unconnected_invalid_payload:
  "map_of ModelMap ''tables'' = Some TableDef
   \<and> create_item same_type None ''tables'' [] =
       (Inl (HTTPException 422 (ValidationDetail (Missing ''project_id''))), None)
   \<and> fst (create_item same_type None ''tables'' []) \<noteq> Inl DatabaseNotAvailable"
  by (simp add: ModelMap_def create_item_def validate_model_def)

text \<open>
  Claim C3, as the code has it. With a store that was never connected, and for every
  resource kind of the registry: Update and Delete (the project's own delete included)
  signal 500 ``Database not available''; Create signals the store-unavailable error when
  the payload passes validation, and 422 with the validation detail when it does not;
  List returns the empty sequence.
\<close>

theorem unconnected_store_operations:
  assumes "map_of ModelMap resource = Some m"
  shows "update_item lax drv None resource item_id payload =
           (Inl (HTTPException 500 (Detail ''Database not available'')), None)
       \<and> delete_item None resource item_id =
           (Inl (HTTPException 500 (Detail ''Database not available'')), None)
       \<and> delete_project None item_id =
           (Inl (HTTPException 500 (Detail ''Database not available'')), None)
       \<and> create_item lax None resource payload =
           (case validate_model lax m payload of
              Inl e \<Rightarrow> (Inl (HTTPException 422 (ValidationDetail e)), None)
            | Inr obj \<Rightarrow> (Inl DatabaseNotAvailable, None))
       \<and> create_project lax None payload = (Inl DatabaseNotAvailable, None)
       \<and> list_by_project None resource project_id = Inr []
       \<and> list_projects None = Inr []"
  using assms
  by (simp add: update_item_def delete_item_def delete_project_def create_item_def
      create_project_def create_document_None list_by_project_def list_projects_None
      split: sum.split)

theorem unconnected_store_operations_witness:
  "map_of ModelMap ''tables'' = Some TableDef
   \<and> update_item same_type plain_only None ''tables'' ''000000000000000000000000'' [(''name'', VStr ''t'')] =
       (Inl (HTTPException 500 (Detail ''Database not available'')), None)
   \<and> delete_item None ''tables'' ''000000000000000000000000'' =
       (Inl (HTTPException 500 (Detail ''Database not available'')), None)
   \<and> create_item same_type None ''tables'' [(''project_id'', VStr ''p1''), (''name'', VStr ''users'')] =
       (Inl DatabaseNotAvailable, None)
   \<and> create_item same_type None ''tables'' [(''name'', VStr ''users'')] =
       (Inl (HTTPException 422 (ValidationDetail (Missing ''project_id''))), None)
   \<and> list_by_project None ''tables'' (Some ''p1'') = Inr []"
  using ModelMap_tables
    unconnected_store_operations [where lax = same_type and drv = plain_only
      and item_id = "''000000000000000000000000''" and payload = "[(''name'', VStr ''t'')]"
      and project_id = "Some ''p1''", OF ModelMap_tables]
    unconnected_store_operations [where lax = same_type and drv = plain_only
      and payload = "[(''project_id'', VStr ''p1''), (''name'', VStr ''users'')]",
      OF ModelMap_tables]
    unconnected_store_operations [where lax = same_type and drv = plain_only
      and payload = "[(''name'', VStr ''users'')]", OF ModelMap_tables]
  by (simp add: validate_model_def coerce_def)

subsection \<open>Identifiers that match nothing\<close>

lemma bad_id_invalid: "ObjectId_of_str ''bad-id'' = None"
  by (simp add: ObjectId_of_str_def)




lemma matches_id: "matches [(''_id'', VOid oid)] d = (map_of d ''_id'' = Some (VOid oid))"
  by (simp add: matches_def)

lemma identifies_matches:
  "ObjectId_of_str item_id = Some oid \<Longrightarrow> matches [(''_id'', VOid oid)] = identifies item_id"
  by (rule ext) (simp add: matches_id identifies_def)

lemma identifies_invalid:
  "ObjectId_of_str item_id = None \<Longrightarrow> \<not> list_ex (identifies item_id) ds"
  by (simp add: list_ex_iff identifies_def)

















text \<open>
  Claim C9 says that Update and Delete with an id that is not an identifier raise
  ``Invalid ObjectId''. When the store was never connected they do not: the check
  \<^verbatim>\<open>if db is None\<close> comes first and raises 500 ``Database not available''.
\<close>

theorem update_delete_bad_id_unconnected:
  "map_of ModelMap ''tables'' = Some TableDef
   \<and> ObjectId_of_str ''bad-id'' = None
   \<and> update_item same_type plain_only None ''tables'' ''bad-id'' [] =
       (Inl (HTTPException 500 (Detail ''Database not available'')), None)
   \<and> delete_item None ''tables'' ''bad-id'' =
       (Inl (HTTPException 500 (Detail ''Database not available'')), None)
   \<and> fst (update_item same_type plain_only None ''tables'' ''bad-id'' [])
       \<noteq> Inl (ValueError ''Invalid ObjectId'')"
  by (simp add: ModelMap_def update_item_def delete_item_def bad_id_invalid)

text \<open>
  Claim C9, as the code has it. For every resource kind of the registry, Update and
  Delete (the project's own delete included) with an id that is not an identifier never
  reach the 404 branch and leave the store as it was: on a connected store they raise
  \<^verbatim>\<open>ValueError("Invalid ObjectId")\<close>, whatever the store holds and whatever the payload,
  and on a store that was never connected they raise 500 ``Database not available''.
\<close>

theorem invalid_id_never_not_found:
  assumes "map_of ModelMap resource = Some m"
      and "ObjectId_of_str item_id = None"
  shows "update_item lax drv db resource item_id payload =
           (case db of
              None \<Rightarrow> (Inl (HTTPException 500 (Detail ''Database not available'')), db)
            | Some s \<Rightarrow> (Inl (ValueError ''Invalid ObjectId''), db))
       \<and> delete_item db resource item_id =
           (case db of
              None \<Rightarrow> (Inl (HTTPException 500 (Detail ''Database not available'')), db)
            | Some s \<Rightarrow> (Inl (ValueError ''Invalid ObjectId''), db))
       \<and> delete_project db item_id =
           (case db of
              None \<Rightarrow> (Inl (HTTPException 500 (Detail ''Database not available'')), db)
            | Some s \<Rightarrow> (Inl (ValueError ''Invalid ObjectId''), db))"
  using assms
  by (simp add: update_item_def delete_item_def delete_project_def split: option.split)

text \<open>
  The id \<^verbatim>\<open>bad-id\<close> on a connected store, with a payload that the driver would refuse:
  the id is rejected first.
\<close>

theorem invalid_id_never_not_found_witness:
  "map_of ModelMap ''tables'' = Some TableDef
   \<and> ObjectId_of_str ''bad-id'' = None
   \<and> update_item same_type plain_only (Some tables_store) ''tables'' ''bad-id'' resize =
       (Inl (ValueError ''Invalid ObjectId''), Some tables_store)
   \<and> delete_item (Some tables_store) ''tables'' ''bad-id'' =
       (Inl (ValueError ''Invalid ObjectId''), Some tables_store)
   \<and> delete_project (Some tables_store) ''bad-id'' =
       (Inl (ValueError ''Invalid ObjectId''), Some tables_store)"
  using ModelMap_tables bad_id_invalid
    invalid_id_never_not_found [OF ModelMap_tables bad_id_invalid,
      where lax = same_type and drv = plain_only and db = "Some tables_store"
        and payload = resize]
  by simp

subsection \<open>Deleting a project\<close>

lemma delete_first_none: "\<not> list_ex P ds \<Longrightarrow> delete_first P ds = ds"
  by (induction ds) auto

lemma delete_first_split:
  "list_ex P ds \<Longrightarrow>
   \<exists>pre d post. ds = pre @ d # post \<and> P d \<and> \<not> list_ex P pre \<and> delete_first P ds = pre @ post"
proof (induction ds)
  case Nil
  then show ?case by simp
next
  case (Cons a ds)
  show ?case
  proof (cases "P a")
    case True
    then have "a # ds = [] @ a # ds \<and> P a \<and> \<not> list_ex P [] \<and> delete_first P (a # ds) = [] @ ds"
      by simp
    then show ?thesis by blast
  next
    case False
    with Cons.prems have "list_ex P ds" by simp
    from Cons.IH [OF this] obtain pre d post where
      "ds = pre @ d # post" "P d" "\<not> list_ex P pre" "delete_first P ds = pre @ post"
      by blast
    with False have
      "a # ds = (a # pre) @ d # post \<and> P d \<and> \<not> list_ex P (a # pre)
       \<and> delete_first P (a # ds) = (a # pre) @ post"
      by simp
    then show ?thesis by blast
  qed
qed

text \<open>
  Claim C8. Deleting a project changes nothing but the project collection (and nothing
  at all when the store was never connected): the
  \<^verbatim>\<open>AuthSettings\<close> and \<^verbatim>\<open>Deployment\<close> records, and every other collection, are as they were.
  When the id identifies a project, the delete succeeds and removes exactly that record,
  the first one with this id; otherwise the project collection is unchanged as well.
\<close>

theorem delete_project_removes_only_project:
  "snd (delete_project None project_id) = None
   \<and> (\<exists>s'. snd (delete_project (Some s) project_id) = Some s'
        \<and> colls s' (collection_name AuthSettings) = colls s (collection_name AuthSettings)
        \<and> colls s' (collection_name Deployment) = colls s (collection_name Deployment)
        \<and> (\<forall>c. c \<noteq> collection_name Project \<longrightarrow> colls s' c = colls s c)
        \<and> (if list_ex (identifies project_id) (colls s (collection_name Project))
           then fst (delete_project (Some s) project_id) = Inr status_ok
              \<and> (\<exists>pre d post.
                    colls s (collection_name Project) = pre @ d # post
                  \<and> identifies project_id d
                  \<and> \<not> list_ex (identifies project_id) pre
                  \<and> colls s' (collection_name Project) = pre @ post)
           else colls s' (collection_name Project) = colls s (collection_name Project)))"
proof (rule conjI)
  show "snd (delete_project None project_id) = None"
    by (simp add: delete_project_def)
next
  show "\<exists>s'. snd (delete_project (Some s) project_id) = Some s'
     \<and> colls s' (collection_name AuthSettings) = colls s (collection_name AuthSettings)
     \<and> colls s' (collection_name Deployment) = colls s (collection_name Deployment)
     \<and> (\<forall>c. c \<noteq> collection_name Project \<longrightarrow> colls s' c = colls s c)
     \<and> (if list_ex (identifies project_id) (colls s (collection_name Project))
        then fst (delete_project (Some s) project_id) = Inr status_ok
           \<and> (\<exists>pre d post.
                 colls s (collection_name Project) = pre @ d # post
               \<and> identifies project_id d
               \<and> \<not> list_ex (identifies project_id) pre
               \<and> colls s' (collection_name Project) = pre @ post)
        else colls s' (collection_name Project) = colls s (collection_name Project))"
  proof (cases "ObjectId_of_str project_id")
    case None
    then show ?thesis
      by (simp add: delete_project_def identifies_invalid)
  next
    case (Some oid)
    note m = identifies_matches [OF Some]
    show ?thesis
    proof (cases "list_ex (identifies project_id) (colls s ''project'')")
      case True
      from delete_first_split [OF True] obtain pre d post where
        "colls s ''project'' = pre @ d # post" "identifies project_id d"
        "\<not> list_ex (identifies project_id) pre"
        "delete_first (identifies project_id) (colls s ''project'') = pre @ post"
        by blast
      with Some True show ?thesis
        by (simp add: delete_project_def delete_one_def m) blast
    next
      case False
      with Some show ?thesis
        by (simp add: delete_project_def delete_one_def m)
    qed
  qed
qed

lemma delete_shop:
  "fst (delete_project (Some seeded_store) ''000000000000000000000000'') = Inr status_ok"
  "coll_after (delete_project (Some seeded_store) ''000000000000000000000000'') ''project'' = Some []"
  by code_simp+

text \<open>
  Deleting the project that was just created in \<open>seeded_store\<close>: the project collection
  is empty afterwards, and the one \<^verbatim>\<open>AuthSettings\<close> record and the three
  \<^verbatim>\<open>Deployment\<close> records that its creation seeded are still there.
\<close>

theorem delete_project_removes_only_project_witness:
  "fst (delete_project (Some seeded_store) ''000000000000000000000000'') = Inr status_ok
   \<and> coll_after (delete_project (Some seeded_store) ''000000000000000000000000'') ''project''
       = Some []
   \<and> coll_after (delete_project (Some seeded_store) ''000000000000000000000000'') ''authsettings''
       = Some (colls seeded_store ''authsettings'')
   \<and> coll_after (delete_project (Some seeded_store) ''000000000000000000000000'') ''deployment''
       = Some (colls seeded_store ''deployment'')
   \<and> length (colls seeded_store ''authsettings'') = 1
   \<and> length (colls seeded_store ''deployment'') = 3"
proof -
  from delete_project_removes_only_project
    [where s = seeded_store and project_id = "''000000000000000000000000''"]
  obtain s' where
    "snd (delete_project (Some seeded_store) ''000000000000000000000000'') = Some s'"
    "colls s' (collection_name AuthSettings) = colls seeded_store (collection_name AuthSettings)"
    "colls s' (collection_name Deployment) = colls seeded_store (collection_name Deployment)"
    by blast
  then have
    "coll_after (delete_project (Some seeded_store) ''000000000000000000000000'') ''authsettings''
       = Some (colls seeded_store ''authsettings'')"
    "coll_after (delete_project (Some seeded_store) ''000000000000000000000000'') ''deployment''
       = Some (colls seeded_store ''deployment'')"
    by (simp_all add: coll_after_def)
  moreover have
    "length (colls seeded_store ''authsettings'') = 1"
    "length (colls seeded_store ''deployment'') = 3"
    by (simp_all add: seeded_colls)
  ultimately show ?thesis
    using delete_shop by blast
qed

subsection \<open>Listing with an empty project filter\<close>

lemma matches_empty: "matches [] d"
  by (simp add: matches_def)

text \<open>
  Claim C10. For every resource kind, List with \<^verbatim>\<open>project_id\<close> equal to the empty string
  behaves as List without a project filter: the filter is built only for a truthy value,
  so on a connected store the empty filter is passed to \<^verbatim>\<open>get_documents\<close>, and every
  record of the kind is returned, serialized, and not only the records whose
  \<^verbatim>\<open>project_id\<close> is the empty string.
\<close>

theorem list_empty_project_id_unfiltered:
  assumes "map_of ModelMap resource = Some m"
  shows "list_by_project db resource (Some []) = list_by_project db resource None
       \<and> list_by_project (Some s) resource (Some []) =
           Inr (map serialize_doc (get_documents (Some s) (collection_name m) []))
       \<and> get_documents (Some s) (collection_name m) [] = colls s (collection_name m)"
  using assms
  by (simp add: list_by_project_def get_documents_def matches_empty split: option.split)

lemma list_tables:
  "list_by_project (Some tables_store) ''tables'' (Some ''p1'') = Inr [serialize_doc users_table]"
  "list_by_project (Some tables_store) ''tables'' (Some []) =
     Inr [serialize_doc users_table, serialize_doc stray_table]"
  by code_simp+

lemma stray_project_id: "map_of stray_table ''project_id'' = Some (VStr [])"
  "map_of users_table ''project_id'' = Some (VStr ''p1'')"
  by (simp_all add: stray_table_def users_table_def)

text \<open>
  In \<open>tables_store\<close> one table belongs to project \<^verbatim>\<open>p1\<close> and one has the empty
  \<^verbatim>\<open>project_id\<close>. The empty filter value returns both, as no filter does; the value
  \<^verbatim>\<open>p1\<close> returns the first only.
\<close>

theorem list_empty_project_id_unfiltered_witness:
  "map_of ModelMap ''tables'' = Some TableDef
   \<and> map_of users_table ''project_id'' = Some (VStr ''p1'')
   \<and> map_of stray_table ''project_id'' = Some (VStr [])
   \<and> list_by_project (Some tables_store) ''tables'' (Some []) =
       Inr [serialize_doc users_table, serialize_doc stray_table]
   \<and> list_by_project (Some tables_store) ''tables'' None =
       Inr [serialize_doc users_table, serialize_doc stray_table]
   \<and> list_by_project (Some tables_store) ''tables'' (Some ''p1'') = Inr [serialize_doc users_table]"
proof -
  from list_empty_project_id_unfiltered
    [where db = "Some tables_store" and s = tables_store, OF ModelMap_tables]
  have "list_by_project (Some tables_store) ''tables'' None =
          list_by_project (Some tables_store) ''tables'' (Some [])"
    by (elim conjE) (rule sym)
  then show ?thesis
    using ModelMap_tables stray_project_id list_tables by simp
qed

subsection \<open>Updating a record\<close>











end
